theory Spec2Isabelle
  imports Complex_Main
begin

section \<open>The sprite animation engine (class SpriteAnimator)\<close>

text \<open>
  The engine is the JavaScript class \<open>SpriteAnimator\<close>. Its object is a record; each
  method takes the record and returns the updated one. The values read from the host
  (\<open>performance.now()\<close>, the size of the decoded image) are parameters or fields.

  Numbers. Frame counts, pixel sizes and indices are \<open>int\<close>; timestamps, the frame
  rate and every quotient are \<open>rat\<close>, so the arithmetic is exact. JavaScript's
  \<open>null\<close> for a frame size that was not given is the number 0: it is falsy like 0
  and converts to 0 in arithmetic, which are the only two uses the code makes of it.
  A division or a remainder by zero yields an infinity or NaN in JavaScript; these
  have no counterpart here, so every theorem that reaches such an operation carries
  the hypothesis that excludes the zero divisor. The one place where NaN comes in
  from outside is the manual grid, whose arguments are results of \<open>parseInt\<close>: there
  the method is given a second time, on numbers that may be NaN.

  Writes to the page (\<open>textContent\<close>, \<open>innerHTML\<close>) and \<open>console.log\<close> are left
  out: nothing in the engine reads them back.
\<close>

subsection \<open>Arithmetic of JavaScript numbers\<close>

text \<open>\<open>a % b\<close> on integers: the remainder of the truncating division, with the sign
  of the dividend.\<close>

definition js_rem :: "int \<Rightarrow> int \<Rightarrow> int" where
  "js_rem a b = (if 0 \<le> a then a mod \<bar>b\<bar> else - ((- a) mod \<bar>b\<bar>))"

text \<open>\<open>a % b\<close> on fractional numbers: \<open>a - b * trunc (a / b)\<close>.\<close>

definition js_trunc :: "rat \<Rightarrow> int" where
  "js_trunc q = (if 0 \<le> q then \<lfloor>q\<rfloor> else \<lceil>q\<rceil>)"

definition js_fmod :: "rat \<Rightarrow> rat \<Rightarrow> rat" where
  "js_fmod a b = a - b * of_int (js_trunc (a / b))"

text \<open>\<open>Math.round\<close> rounds halves upwards.\<close>

definition math_round :: "rat \<Rightarrow> int" where
  "math_round q = \<lfloor>q + 1 / 2\<rfloor>"

subsection \<open>The object\<close>

text \<open>The four arguments of \<open>drawImage\<close> that select the source rectangle.\<close>

record rect =
  rx :: int
  ry :: int
  rw :: int
  rh :: int

text \<open>An entry of the array \<open>layouts\<close> in \<open>findBestGridLayout\<close>.\<close>

record layout =
  cols :: int
  rows :: int
  frameW :: rat
  frameH :: rat
  aspectRatio :: rat
  score :: int

datatype js_error = TypeError

text \<open>
  The fields of \<open>this\<close>, in the order of the constructor. \<open>imgWidth\<close> and
  \<open>imgHeight\<close> are \<open>spriteImage.width\<close> and \<open>spriteImage.height\<close>;
  \<open>canvasWidth\<close> and \<open>canvasHeight\<close> are \<open>canvas.width\<close> and \<open>canvas.height\<close>;
  \<open>lastDraw\<close> is the source rectangle of the latest \<open>drawImage\<close> call. The host's
  animation-frame queue is \<open>rafPending\<close> (the handles whose callback is still
  scheduled) and \<open>rafNext\<close> (the handle the next request returns).
\<close>

record animator =
  imgWidth :: int
  imgHeight :: int
  canvasWidth :: int
  canvasHeight :: int
  lastDraw :: "rect option"
  frameWidth :: int
  frameHeight :: int
  totalFrames :: int
  framesPerRow :: int
  framesPerCol :: int
  currentFrame :: int
  isPlaying :: bool
  fps :: rat
  frameInterval :: rat
  lastFrameTime :: rat
  actualFps :: int
  frameCount :: int
  fpsLastTime :: rat
  animationId :: "nat option"
  offsetX :: int
  offsetY :: int
  spacingX :: int
  spacingY :: int
  autoDetect :: bool
  rafPending :: "nat list"
  rafNext :: nat

text \<open>\<open>new SpriteAnimator(canvasId, path, totalFrames, frameWidth, frameHeight)\<close>
  on a canvas of the given size, at time \<open>now\<close>; the image has not loaded yet.\<close>

definition SpriteAnimator :: "int \<Rightarrow> int \<Rightarrow> int \<Rightarrow> int \<Rightarrow> int \<Rightarrow> rat \<Rightarrow> animator" where
  "SpriteAnimator cw ch nframes fw fh now =
     \<lparr> imgWidth = 0, imgHeight = 0, canvasWidth = cw, canvasHeight = ch, lastDraw = None,
       frameWidth = fw, frameHeight = fh, totalFrames = nframes,
       framesPerRow = 4, framesPerCol = 2,
       currentFrame = 0, isPlaying = False, fps = 24, frameInterval = 1000 / 24,
       lastFrameTime = 0, actualFps = 0, frameCount = 0, fpsLastTime = now,
       animationId = None, offsetX = 0, offsetY = 0, spacingX = 0, spacingY = 0,
       autoDetect = True, rafPending = [], rafNext = 1 \<rparr>"

subsection \<open>Rendering\<close>

text \<open>The source rectangle \<open>render\<close> computes for the current frame.\<close>

definition sourceRect :: "animator \<Rightarrow> rect" where
  "sourceRect s =
     (let row = \<lfloor>(of_int (currentFrame s) :: rat) / of_int (framesPerRow s)\<rfloor>;
          col = js_rem (currentFrame s) (framesPerRow s);
          sx = offsetX s + col * (frameWidth s + spacingX s);
          sy = offsetY s + row * (frameHeight s + spacingY s)
      in \<lparr> rx = sx, ry = sy, rw = frameWidth s, rh = frameHeight s \<rparr>)"

definition render :: "animator \<Rightarrow> animator" where
  "render s = s\<lparr> lastDraw := Some (sourceRect s) \<rparr>"

subsection \<open>Grid detection\<close>

text \<open>
  The loop of \<open>findBestGridLayout\<close>, from the column count \<open>c\<close> on. The loop
  starts at 1, so \<open>c\<close> is positive; where \<open>c\<close> divides \<open>totalFrames\<close> the quotient
  \<open>totalFrames / cols\<close> is the integer \<open>nframes div c\<close>, at least 1. The frame height
  is 0 only for an image of height 0; the aspect ratio is then an infinity or NaN, and
  both fail the test for the bonus, which is the guard \<open>fH \<noteq> 0\<close>.
\<close>

function gridCandidates :: "int \<Rightarrow> int \<Rightarrow> int \<Rightarrow> int \<Rightarrow> layout list" where
  "gridCandidates c nframes w h =
     (if c \<le> nframes then
        (if js_rem nframes c = 0 then
           (let r = nframes div c;
                fW = (of_int w :: rat) / of_int c;
                fH = (of_int h :: rat) / of_int r;
                ar = fW / fH
            in [\<lparr> cols = c, rows = r, frameW = fW, frameH = fH, aspectRatio = ar,
                   score = c * 2 + (if fH \<noteq> 0 \<and> ar > 1 / 10 \<and> ar < 3 then 10 else 0) \<rparr>])
         else [])
        @ gridCandidates (c + 1) nframes w h
      else [])"
  by pat_completeness auto
termination
  by (relation "measure (\<lambda>(c, nframes, w, h). nat (nframes + 1 - c))") auto

declare gridCandidates.simps [simp del]

text \<open>\<open>layouts.sort((a, b) => b.score - a.score)\<close>: a stable sort, highest score
  first; then \<open>layouts[0]\<close>, which is \<open>undefined\<close> on the empty array.\<close>

definition findBestGridLayout :: "int \<Rightarrow> int \<Rightarrow> int \<Rightarrow> layout option" where
  "findBestGridLayout nframes w h =
     (case sort_key (\<lambda>l. - score l) (gridCandidates 1 nframes w h) of
        [] \<Rightarrow> None
      | l # _ \<Rightarrow> Some l)"

text \<open>A method that can throw returns the error, if any, with the object as the
  throw left it.\<close>

definition detectSpriteLayout :: "animator \<Rightarrow> js_error option \<times> animator" where
  "detectSpriteLayout s =
     (case findBestGridLayout (totalFrames s) (imgWidth s) (imgHeight s) of
        None \<Rightarrow> (Some TypeError, s)
      | Some best \<Rightarrow>
          (let fw = \<lfloor>(of_int (imgWidth s) :: rat) / of_int (cols best)\<rfloor>;
               fh = \<lfloor>(of_int (imgHeight s) :: rat) / of_int (rows best)\<rfloor>
           in (None, s\<lparr> framesPerRow := cols best, framesPerCol := rows best,
                        frameWidth := fw, frameHeight := fh,
                        canvasWidth := fw, canvasHeight := fh \<rparr>)))"

definition triggerAutoDetect :: "animator \<Rightarrow> js_error option \<times> animator" where
  "triggerAutoDetect s =
     (case detectSpriteLayout (s\<lparr> autoDetect := True \<rparr>) of
        (Some e, s') \<Rightarrow> (Some e, s')
      | (None, s') \<Rightarrow> (None, render s'))"

text \<open>The \<open>onload\<close> handler that \<open>loadSprite\<close> installs, run when the image has
  decoded to \<open>w\<close> by \<open>h\<close> pixels.\<close>

definition loadSprite_onload :: "int \<Rightarrow> int \<Rightarrow> animator \<Rightarrow> js_error option \<times> animator" where
  "loadSprite_onload w h s0 =
     (let s = s0\<lparr> imgWidth := w, imgHeight := h \<rparr> in
      if frameWidth s = 0 \<or> frameHeight s = 0 then
        (case detectSpriteLayout s of
           (Some e, s') \<Rightarrow> (Some e, s')
         | (None, s') \<Rightarrow> (None, render s'))
      else
        (None, render (s\<lparr> framesPerRow := \<lfloor>(of_int w :: rat) / of_int (frameWidth s)\<rfloor>,
                           framesPerCol := \<lfloor>(of_int h :: rat) / of_int (frameHeight s)\<rfloor> \<rparr>)))"

subsection \<open>Manual grid\<close>

text \<open>\<open>setManualGrid\<close>, on integer arguments, returns \<open>false\<close>, after logging \<open>Invalid grid parameters\<close>,
  or \<open>true\<close>; the result is paired with the object after the call.\<close>

definition setManualGrid ::
  "int \<Rightarrow> int \<Rightarrow> int \<Rightarrow> int \<Rightarrow> int \<Rightarrow> int \<Rightarrow> int \<Rightarrow> int \<Rightarrow> animator \<Rightarrow> bool \<times> animator" where
  "setManualGrid nframes c fw fh ox oy sx sy s =
     (if nframes < 1 \<or> c < 1 \<or> fw < 1 \<or> fh < 1 then (False, s)
      else
        (True,
         render (s\<lparr> totalFrames := nframes, framesPerRow := c,
                    framesPerCol := \<lceil>(of_int nframes :: rat) / of_int c\<rceil>,
                    frameWidth := fw, frameHeight := fh,
                    offsetX := ox, offsetY := oy, spacingX := sx, spacingY := sy,
                    autoDetect := False,
                    canvasWidth := fw, canvasHeight := fh,
                    currentFrame := 0 \<rparr>)))"

subsection \<open>Manual grid, on the numbers the page passes\<close>

text \<open>
  The handler of the Apply button passes \<open>parseInt\<close> of the four size fields as they
  are, and \<open>parseInt\<close> of an empty or non-numeric field is NaN. So the arguments of
  \<open>setManualGrid\<close> are integers or NaN.
\<close>

datatype jsnum = Num int | NaN

text \<open>\<open>a < b\<close>: false when either side is NaN.\<close>

definition js_lt :: "jsnum \<Rightarrow> jsnum \<Rightarrow> bool" where
  "js_lt a b = (case (a, b) of (Num x, Num y) \<Rightarrow> x < y | _ \<Rightarrow> False)"

text \<open>\<open>Math.ceil(a / b)\<close>, NaN when either operand is; used where \<open>b\<close> is not zero.\<close>

definition js_ceil_quot :: "jsnum \<Rightarrow> jsnum \<Rightarrow> jsnum" where
  "js_ceil_quot a b =
     (case (a, b) of (Num x, Num y) \<Rightarrow> Num \<lceil>(of_int x :: rat) / of_int y\<rceil> | _ \<Rightarrow> NaN)"

text \<open>\<open>a || 0\<close>: NaN and 0 are falsy.\<close>

definition js_or_zero :: "jsnum \<Rightarrow> jsnum" where
  "js_or_zero a = (case a of NaN \<Rightarrow> Num 0 | Num x \<Rightarrow> Num x)"

text \<open>The fields of \<open>this\<close> that \<open>setManualGrid\<close> assigns, as numbers that may be NaN;
  the canvas and the drawing are not part of this view.\<close>

record js_grid =
  jTotalFrames :: jsnum
  jFramesPerRow :: jsnum
  jFramesPerCol :: jsnum
  jFrameWidth :: jsnum
  jFrameHeight :: jsnum
  jOffsetX :: jsnum
  jOffsetY :: jsnum
  jSpacingX :: jsnum
  jSpacingY :: jsnum
  jAutoDetect :: bool
  jCurrentFrame :: jsnum

definition grid_of :: "animator \<Rightarrow> js_grid" where
  "grid_of s =
     \<lparr> jTotalFrames = Num (totalFrames s), jFramesPerRow = Num (framesPerRow s),
       jFramesPerCol = Num (framesPerCol s),
       jFrameWidth = Num (frameWidth s), jFrameHeight = Num (frameHeight s),
       jOffsetX = Num (offsetX s), jOffsetY = Num (offsetY s),
       jSpacingX = Num (spacingX s), jSpacingY = Num (spacingY s),
       jAutoDetect = autoDetect s, jCurrentFrame = Num (currentFrame s) \<rparr>"

text \<open>\<open>setManualGrid\<close> again, statement by statement, on such arguments.\<close>

definition setManualGrid_js ::
  "jsnum \<Rightarrow> jsnum \<Rightarrow> jsnum \<Rightarrow> jsnum \<Rightarrow> jsnum \<Rightarrow> jsnum \<Rightarrow> jsnum \<Rightarrow> jsnum \<Rightarrow> js_grid
     \<Rightarrow> bool \<times> js_grid" where
  "setManualGrid_js nframes c fw fh ox oy sx sy g =
     (if js_lt nframes (Num 1) \<or> js_lt c (Num 1) \<or> js_lt fw (Num 1) \<or> js_lt fh (Num 1)
      then (False, g)
      else
        (True,
         g\<lparr> jTotalFrames := nframes, jFramesPerRow := c,
            jFramesPerCol := js_ceil_quot nframes c,
            jFrameWidth := fw, jFrameHeight := fh,
            jOffsetX := ox, jOffsetY := oy, jSpacingX := sx, jSpacingY := sy,
            jAutoDetect := False,
            jCurrentFrame := Num 0 \<rparr>))"

text \<open>The click handler of the Apply button: the four sizes go through as parsed,
  offsets and spacings as \<open>parseInt(...) || 0\<close>.\<close>

definition applyGridBtn_click ::
  "jsnum \<Rightarrow> jsnum \<Rightarrow> jsnum \<Rightarrow> jsnum \<Rightarrow> jsnum \<Rightarrow> jsnum \<Rightarrow> jsnum \<Rightarrow> jsnum \<Rightarrow> js_grid
     \<Rightarrow> bool \<times> js_grid" where
  "applyGridBtn_click nframes c fw fh ox oy sx sy g =
     setManualGrid_js nframes c fw fh
       (js_or_zero ox) (js_or_zero oy) (js_or_zero sx) (js_or_zero sy) g"

subsection \<open>Playback\<close>

definition setFPS :: "rat \<Rightarrow> animator \<Rightarrow> animator" where
  "setFPS v s =
     (let s1 = s\<lparr> fps := max 1 (min 60 v) \<rparr>
      in s1\<lparr> frameInterval := 1000 / fps s1 \<rparr>)"

text \<open>The host: \<open>requestAnimationFrame\<close> hands out the next handle and queues it,
  \<open>cancelAnimationFrame\<close> takes a handle off the queue.\<close>

definition requestAnimationFrame :: "animator \<Rightarrow> nat \<times> animator" where
  "requestAnimationFrame s =
     (rafNext s, s\<lparr> rafPending := rafPending s @ [rafNext s], rafNext := Suc (rafNext s) \<rparr>)"

definition cancelAnimationFrame :: "nat \<Rightarrow> animator \<Rightarrow> animator" where
  "cancelAnimationFrame h s = s\<lparr> rafPending := removeAll h (rafPending s) \<rparr>"

text \<open>\<open>if (this.animationId)\<close>: \<open>null\<close> and 0 are falsy.\<close>

definition truthy_handle :: "nat option \<Rightarrow> bool" where
  "truthy_handle a = (case a of None \<Rightarrow> False | Some h \<Rightarrow> h \<noteq> 0)"

definition pause :: "animator \<Rightarrow> animator" where
  "pause s =
     (let s1 = s\<lparr> isPlaying := False \<rparr> in
      if truthy_handle (animationId s1)
      then (cancelAnimationFrame (the (animationId s1)) s1)\<lparr> animationId := None \<rparr>
      else s1)"

definition nextFrame :: "animator \<Rightarrow> animator" where
  "nextFrame s = render (s\<lparr> currentFrame := js_rem (currentFrame s + 1) (totalFrames s) \<rparr>)"

definition prevFrame :: "animator \<Rightarrow> animator" where
  "prevFrame s =
     render (s\<lparr> currentFrame := js_rem (currentFrame s - 1 + totalFrames s) (totalFrames s) \<rparr>)"

text \<open>\<open>animate\<close>, with \<open>now\<close> the value \<open>performance.now()\<close> returns in it.\<close>

definition animate :: "rat \<Rightarrow> animator \<Rightarrow> animator" where
  "animate now s =
     (if \<not> isPlaying s then s
      else
        (let deltaTime = now - lastFrameTime s;
             s1 = (if deltaTime \<ge> frameInterval s
                   then (render (s\<lparr> currentFrame := js_rem (currentFrame s + 1) (totalFrames s) \<rparr>))
                          \<lparr> lastFrameTime := now - js_fmod deltaTime (frameInterval s) \<rparr>
                   else s);
             s2 = s1\<lparr> frameCount := frameCount s1 + 1 \<rparr>;
             s3 = (if now - fpsLastTime s2 \<ge> 1000
                   then s2\<lparr> actualFps :=
                              math_round (of_int (frameCount s2) * 1000 / (now - fpsLastTime s2)),
                            frameCount := 0,
                            fpsLastTime := now \<rparr>
                   else s2);
             (h, s4) = requestAnimationFrame s3
         in s4\<lparr> animationId := Some h \<rparr>))"

text \<open>\<open>play\<close> reads the clock itself (\<open>t\<close>) and then calls \<open>animate\<close>, which reads
  it again (\<open>t'\<close>).\<close>

definition play :: "rat \<Rightarrow> rat \<Rightarrow> animator \<Rightarrow> animator" where
  "play t t' s =
     (if \<not> isPlaying s
      then animate t' (s\<lparr> isPlaying := True, lastFrameTime := t \<rparr>)
      else s)"

text \<open>The page's own instance, \<open>new SpriteAnimator('animationCanvas',
  'images/sprite.png', 8)\<close>, on a canvas of 300 by 150 pixels at time 0, before the
  image has loaded.\<close>

definition page_animator :: animator where
  "page_animator = SpriteAnimator 300 150 8 0 0 0"

text \<open>The same instance once its image has loaded as a sheet of 1024 by 512 pixels
  (whatever \<open>loadSprite\<close>'s handler leaves, also if it throws).\<close>

definition sheet_animator :: animator where
  "sheet_animator = snd (loadSprite_onload 1024 512 page_animator)"

text \<open>The page's instance after a manual grid of 6 frames in 3 columns, frames of 100
  by 100 pixels, offset (5, 7) and spacing (2, 3).\<close>

definition manual_animator :: animator where
  "manual_animator = snd (setManualGrid 6 3 100 100 5 7 2 3 page_animator)"

text \<open>\<open>new SpriteAnimator('animationCanvas', 'images/sprite.png', 0)\<close>: an instance
  constructed with no frames.\<close>

definition empty_animator :: animator where
  "empty_animator = SpriteAnimator 300 150 0 0 0 0"

text \<open>The loaded instance set to 1 frame per second and started with the clock
  at 0.\<close>

definition playing_animator :: animator where
  "playing_animator = play 0 0 (setFPS 1 sheet_animator)"

section \<open>Properties\<close>

subsection \<open>Remainders on the ranges the engine uses\<close>

lemma js_rem_nonneg: "0 \<le> a \<Longrightarrow> 0 < b \<Longrightarrow> js_rem a b = a mod b"
  by (simp add: js_rem_def)

lemma js_rem_one [simp]: "js_rem a 1 = 0"
  by (simp add: js_rem_def)

subsection \<open>Pausing\<close>

text \<open>
  C10. \<open>pause\<close> is idempotent: from every state, pausing twice leaves the whole object
  (play flag, pending-frame handle, the host's queue, frame index, timestamps) as
  pausing once does.
\<close>

theorem pause_idempotent: "pause (pause s) = pause s"
  by (simp add: pause_def truthy_handle_def cancelAnimationFrame_def Let_def
      split: option.splits)

subsection \<open>Frame rate\<close>

text \<open>
  C9. For every value \<open>v\<close>, \<open>setFPS\<close> stores \<open>v\<close> clamped into \<open>[1, 60]\<close> (120 gives
  60, 0 gives 1), sets the frame interval to 1000 divided by the stored rate, and
  changes no other field: the time of the last advance, the frame index and the play
  flag stay as they were.
\<close>

theorem setFPS_clamps:
  "fps (setFPS v s) = (if v < 1 then 1 else if 60 < v then 60 else v)
   \<and> 1 \<le> fps (setFPS v s) \<and> fps (setFPS v s) \<le> 60
   \<and> fps (setFPS 120 s) = 60 \<and> fps (setFPS 0 s) = 1
   \<and> frameInterval (setFPS v s) = 1000 / fps (setFPS v s)
   \<and> setFPS v s = s\<lparr> fps := fps (setFPS v s), frameInterval := frameInterval (setFPS v s) \<rparr>
   \<and> lastFrameTime (setFPS v s) = lastFrameTime s
   \<and> currentFrame (setFPS v s) = currentFrame s
   \<and> isPlaying (setFPS v s) = isPlaying s"
  by (simp add: setFPS_def Let_def max_def min_def)

theorem setFPS_clamps_witness:
  "fps (setFPS 120 page_animator) = 60 \<and> frameInterval (setFPS 120 page_animator) = 50 / 3
   \<and> fps (setFPS 0 page_animator) = 1 \<and> frameInterval (setFPS 0 page_animator) = 1000
   \<and> fps (setFPS 30 page_animator) = 30 \<and> lastFrameTime (setFPS 30 page_animator) = 0"
  using setFPS_clamps [of 120 page_animator] setFPS_clamps [of 0 page_animator]
    setFPS_clamps [of 30 page_animator]
  by (simp add: page_animator_def SpriteAnimator_def)

subsection \<open>Stepping\<close>

text \<open>
  C8. In a state with \<open>totalFrames \<ge> 1\<close> and the frame index in \<open>[0, totalFrames)\<close>,
  \<open>nextFrame\<close> sets the index to \<open>(currentFrame + 1) mod totalFrames\<close> and \<open>prevFrame\<close>
  sets it to \<open>(currentFrame - 1 + totalFrames) mod totalFrames\<close>; stepping forward at
  the last frame gives 0, stepping backward at 0 gives the last frame, and the index
  stays in \<open>[0, totalFrames)\<close>.
\<close>

theorem step_wraps:
  assumes "1 \<le> totalFrames s" and "0 \<le> currentFrame s" and "currentFrame s < totalFrames s"
  shows "currentFrame (nextFrame s) = (currentFrame s + 1) mod totalFrames s
     \<and> currentFrame (prevFrame s) = (currentFrame s - 1 + totalFrames s) mod totalFrames s
     \<and> (currentFrame s = totalFrames s - 1 \<longrightarrow> currentFrame (nextFrame s) = 0)
     \<and> (currentFrame s = 0 \<longrightarrow> currentFrame (prevFrame s) = totalFrames s - 1)
     \<and> 0 \<le> currentFrame (nextFrame s) \<and> currentFrame (nextFrame s) < totalFrames s
     \<and> 0 \<le> currentFrame (prevFrame s) \<and> currentFrame (prevFrame s) < totalFrames s
     \<and> totalFrames (nextFrame s) = totalFrames s \<and> totalFrames (prevFrame s) = totalFrames s"
proof -
  have n: "currentFrame (nextFrame s) = (currentFrame s + 1) mod totalFrames s"
    using assms by (simp add: nextFrame_def render_def js_rem_nonneg)
  have p: "currentFrame (prevFrame s) = (currentFrame s - 1 + totalFrames s) mod totalFrames s"
    using assms by (simp add: prevFrame_def render_def js_rem_nonneg)
  have t: "totalFrames (nextFrame s) = totalFrames s" "totalFrames (prevFrame s) = totalFrames s"
    by (simp_all add: nextFrame_def prevFrame_def render_def)
  show ?thesis using assms unfolding n p t by (auto simp: zmod_minus1)
qed

theorem step_wraps_witness:
  "1 \<le> totalFrames page_animator \<and> 0 \<le> currentFrame page_animator
   \<and> currentFrame page_animator < totalFrames page_animator
   \<and> currentFrame (nextFrame page_animator) = 1
   \<and> currentFrame (prevFrame page_animator) = 7
   \<and> currentFrame (nextFrame (prevFrame page_animator)) = 0"
proof -
  have a: "1 \<le> totalFrames page_animator" "0 \<le> currentFrame page_animator"
    "currentFrame page_animator < totalFrames page_animator"
    by (simp_all add: page_animator_def SpriteAnimator_def)
  note first = step_wraps [OF a]
  have b: "1 \<le> totalFrames (prevFrame page_animator)"
    "0 \<le> currentFrame (prevFrame page_animator)"
    "currentFrame (prevFrame page_animator) < totalFrames (prevFrame page_animator)"
    using first a by simp_all
  note second = step_wraps [OF b]
  have c: "currentFrame page_animator = 0" "totalFrames page_animator = 8"
    by (simp_all add: page_animator_def SpriteAnimator_def)
  show ?thesis using a first second unfolding c by simp
qed

subsection \<open>Floors and ceilings of integer quotients\<close>

lemma floor_rat_div: "\<lfloor>(of_int a :: rat) / of_int b\<rfloor> = a div b"
  by (rule floor_divide_of_int_eq)

lemma ceiling_rat_div: "\<lceil>(of_int a :: rat) / of_int b\<rceil> = - ((- a) div b)"
  unfolding ceiling_def using floor_rat_div [of "- a" b] by simp

text \<open>\<open>Math.ceil(n / c)\<close> is the least number of rows of \<open>c\<close> frames that hold \<open>n\<close>
  frames.\<close>

lemma ceiling_rows:
  assumes "1 \<le> c"
  shows "n \<le> \<lceil>(of_int n :: rat) / of_int c\<rceil> * c
       \<and> (\<lceil>(of_int n :: rat) / of_int c\<rceil> - 1) * c < n"
proof -
  define r where "r = \<lceil>(of_int n :: rat) / of_int c\<rceil>"
  have c: "(0::rat) < of_int c" using assms by simp
  have "(of_int n :: rat) / of_int c \<le> of_int r" and "(of_int r :: rat) - 1 < of_int n / of_int c"
    unfolding r_def using ceiling_correct [of "(of_int n :: rat) / of_int c"] by simp_all
  then have "(of_int n :: rat) \<le> of_int r * of_int c" and "((of_int r :: rat) - 1) * of_int c < of_int n"
    using c by (simp_all add: pos_divide_le_eq pos_less_divide_eq)
  then have "(of_int n :: rat) \<le> of_int (r * c)" and "(of_int ((r - 1) * c) :: rat) < of_int n"
    by simp_all
  then have "n \<le> r * c" and "(r - 1) * c < n"
    by (simp_all only: of_int_le_iff of_int_less_iff)
  then show ?thesis unfolding r_def by simp
qed

subsection \<open>The manual grid\<close>

lemma sourceRect_grid:
  assumes "1 \<le> framesPerRow s" and "0 \<le> currentFrame s"
  shows "sourceRect s =
     \<lparr> rx = offsetX s + (currentFrame s mod framesPerRow s) * (frameWidth s + spacingX s),
       ry = offsetY s + (currentFrame s div framesPerRow s) * (frameHeight s + spacingY s),
       rw = frameWidth s, rh = frameHeight s \<rparr>"
  using assms by (simp add: sourceRect_def Let_def js_rem_nonneg floor_divide_of_int_eq)

lemma setManualGrid_accepts:
  assumes "1 \<le> n" and "1 \<le> c" and "1 \<le> fw" and "1 \<le> fh"
  shows "setManualGrid n c fw fh ox oy sx sy s =
     (True,
      s\<lparr> totalFrames := n, framesPerRow := c,
         framesPerCol := \<lceil>(of_int n :: rat) / of_int c\<rceil>,
         frameWidth := fw, frameHeight := fh,
         offsetX := ox, offsetY := oy, spacingX := sx, spacingY := sy,
         autoDetect := False, canvasWidth := fw, canvasHeight := fh,
         currentFrame := 0,
         lastDraw := Some \<lparr> rx = ox, ry = oy, rw = fw, rh = fh \<rparr> \<rparr>)"
  using assms by (simp add: setManualGrid_def render_def sourceRect_def Let_def js_rem_def)

lemma setManualGrid_rejects:
  assumes "n < 1 \<or> c < 1 \<or> fw < 1 \<or> fh < 1"
  shows "setManualGrid n c fw fh ox oy sx sy s = (False, s)"
  using assms by (simp add: setManualGrid_def)

lemma manual_animator_eq:
  "manual_animator =
     \<lparr> imgWidth = 0, imgHeight = 0, canvasWidth = 100, canvasHeight = 100,
       lastDraw = Some \<lparr> rx = 5, ry = 7, rw = 100, rh = 100 \<rparr>,
       frameWidth = 100, frameHeight = 100, totalFrames = 6,
       framesPerRow = 3, framesPerCol = 2,
       currentFrame = 0, isPlaying = False, fps = 24, frameInterval = 125 / 3,
       lastFrameTime = 0, actualFps = 0, frameCount = 0, fpsLastTime = 0,
       animationId = None, offsetX = 5, offsetY = 7, spacingX = 2, spacingY = 3,
       autoDetect = False, rafPending = [], rafNext = 1 \<rparr>"
  by (simp add: manual_animator_def setManualGrid_accepts page_animator_def SpriteAnimator_def)

text \<open>
  C2. In a layout with at least one column, the source rectangle of frame \<open>i\<close>, for
  every \<open>i\<close> in \<open>[0, totalFrames)\<close>, has \<open>x = offsetX + (i mod columns) * (frameWidth +
  spacingX)\<close>, \<open>y = offsetY + (i div columns) * (frameHeight + spacingY)\<close>, width
  \<open>frameWidth\<close> and height \<open>frameHeight\<close>, and it is what \<open>render\<close> passes to
  \<open>drawImage\<close>. Frame 0 maps to \<open>(offsetX, offsetY, frameWidth, frameHeight)\<close>; so the
  rectangle drawn right after a successful \<open>setManualGrid\<close> is exactly the offset and
  frame size given. After \<open>setManualGrid(6, 3, 100, 100, 0, 0, 0, 0)\<close> there are 2 rows
  and frame 5, also when reached by five calls of \<open>nextFrame\<close>, maps to
  \<open>(200, 100, 100, 100)\<close>.
\<close>

theorem frame_rect:
  "(1 \<le> framesPerRow s \<and> 0 \<le> i \<and> i < totalFrames s \<longrightarrow>
      sourceRect (s\<lparr> currentFrame := i \<rparr>) =
        \<lparr> rx = offsetX s + (i mod framesPerRow s) * (frameWidth s + spacingX s),
          ry = offsetY s + (i div framesPerRow s) * (frameHeight s + spacingY s),
          rw = frameWidth s, rh = frameHeight s \<rparr>
      \<and> lastDraw (render (s\<lparr> currentFrame := i \<rparr>)) = Some (sourceRect (s\<lparr> currentFrame := i \<rparr>)))
   \<and> (1 \<le> framesPerRow s \<longrightarrow>
      sourceRect (s\<lparr> currentFrame := 0 \<rparr>) =
        \<lparr> rx = offsetX s, ry = offsetY s, rw = frameWidth s, rh = frameHeight s \<rparr>)
   \<and> (1 \<le> n \<and> 1 \<le> c \<and> 1 \<le> fw \<and> 1 \<le> fh \<longrightarrow>
      sourceRect (snd (setManualGrid n c fw fh ox oy sx sy s)) =
        \<lparr> rx = ox, ry = oy, rw = fw, rh = fh \<rparr>
      \<and> lastDraw (snd (setManualGrid n c fw fh ox oy sx sy s)) =
        Some \<lparr> rx = ox, ry = oy, rw = fw, rh = fh \<rparr>)
   \<and> framesPerCol (snd (setManualGrid 6 3 100 100 0 0 0 0 s)) = 2
   \<and> sourceRect ((snd (setManualGrid 6 3 100 100 0 0 0 0 s))\<lparr> currentFrame := 5 \<rparr>) =
        \<lparr> rx = 200, ry = 100, rw = 100, rh = 100 \<rparr>
   \<and> lastDraw (nextFrame (nextFrame (nextFrame (nextFrame (nextFrame
        (snd (setManualGrid 6 3 100 100 0 0 0 0 s))))))) =
        Some \<lparr> rx = 200, ry = 100, rw = 100, rh = 100 \<rparr>"
proof -
  have general: "sourceRect (s\<lparr> currentFrame := i \<rparr>) =
        \<lparr> rx = offsetX s + (i mod framesPerRow s) * (frameWidth s + spacingX s),
          ry = offsetY s + (i div framesPerRow s) * (frameHeight s + spacingY s),
          rw = frameWidth s, rh = frameHeight s \<rparr>"
    if "1 \<le> framesPerRow s" and "0 \<le> i" for i
    using that sourceRect_grid [of "s\<lparr> currentFrame := i \<rparr>"] by simp
  have drawn: "lastDraw (render (s\<lparr> currentFrame := i \<rparr>)) = Some (sourceRect (s\<lparr> currentFrame := i \<rparr>))"
    by (simp add: render_def)
  have first: "sourceRect (s\<lparr> currentFrame := 0 \<rparr>) =
        \<lparr> rx = offsetX s, ry = offsetY s, rw = frameWidth s, rh = frameHeight s \<rparr>"
    if "1 \<le> framesPerRow s"
    using general [OF that, of 0] by simp
  have round: "sourceRect (snd (setManualGrid n c fw fh ox oy sx sy s)) =
        \<lparr> rx = ox, ry = oy, rw = fw, rh = fh \<rparr>
      \<and> lastDraw (snd (setManualGrid n c fw fh ox oy sx sy s)) =
        Some \<lparr> rx = ox, ry = oy, rw = fw, rh = fh \<rparr>"
    if "1 \<le> n \<and> 1 \<le> c \<and> 1 \<le> fw \<and> 1 \<le> fh"
    using that by (simp add: setManualGrid_accepts sourceRect_def js_rem_def)
  have six: "setManualGrid 6 3 100 100 0 0 0 0 s =
     (True,
      s\<lparr> totalFrames := 6, framesPerRow := 3, framesPerCol := 2,
         frameWidth := 100, frameHeight := 100,
         offsetX := 0, offsetY := 0, spacingX := 0, spacingY := 0,
         autoDetect := False, canvasWidth := 100, canvasHeight := 100,
         currentFrame := 0,
         lastDraw := Some \<lparr> rx = 0, ry = 0, rw = 100, rh = 100 \<rparr> \<rparr>)"
    by (simp add: setManualGrid_accepts)
  have rows: "framesPerCol (snd (setManualGrid 6 3 100 100 0 0 0 0 s)) = 2"
    by (simp add: six)
  have five: "sourceRect ((snd (setManualGrid 6 3 100 100 0 0 0 0 s))\<lparr> currentFrame := 5 \<rparr>) =
        \<lparr> rx = 200, ry = 100, rw = 100, rh = 100 \<rparr>"
    by (simp add: six sourceRect_grid)
  have steps: "lastDraw (nextFrame (nextFrame (nextFrame (nextFrame (nextFrame
        (snd (setManualGrid 6 3 100 100 0 0 0 0 s))))))) =
        Some \<lparr> rx = 200, ry = 100, rw = 100, rh = 100 \<rparr>"
    by (simp add: six nextFrame_def render_def sourceRect_grid js_rem_def)
  show ?thesis
    using general [of i] drawn first round rows five steps by simp
qed

theorem frame_rect_witness:
  "1 \<le> framesPerRow manual_animator \<and> 0 \<le> (4::int) \<and> 4 < totalFrames manual_animator
   \<and> sourceRect (manual_animator\<lparr> currentFrame := 4 \<rparr>) =
        \<lparr> rx = 107, ry = 110, rw = 100, rh = 100 \<rparr>
   \<and> sourceRect (manual_animator\<lparr> currentFrame := 0 \<rparr>) =
        \<lparr> rx = 5, ry = 7, rw = 100, rh = 100 \<rparr>
   \<and> (1 \<le> (6::int) \<and> 1 \<le> (3::int) \<and> 1 \<le> (100::int) \<and> 1 \<le> (100::int))
   \<and> sourceRect (snd (setManualGrid 6 3 100 100 0 0 0 0 manual_animator)) =
        \<lparr> rx = 0, ry = 0, rw = 100, rh = 100 \<rparr>"
  using frame_rect [of manual_animator 4 6 3 100 100 0 0 0 0]
  by (simp add: manual_animator_eq)

text \<open>
  On integer arguments \<open>setManualGrid\<close> succeeds exactly when \<open>totalFrames\<close>, \<open>cols\<close>,
  \<open>frameWidth\<close> and \<open>frameHeight\<close> are all at least 1. On success the row count is
  \<open>ceil (totalFrames / cols)\<close>, the least number of rows that hold all frames; otherwise
  the call returns \<open>false\<close> (the failure it logs as \<open>Invalid grid parameters\<close>) and the
  object, layout and playback state alike, is exactly as before.
\<close>

lemma setManualGrid_on_integers:
  "fst (setManualGrid n c fw fh ox oy sx sy s) = (1 \<le> n \<and> 1 \<le> c \<and> 1 \<le> fw \<and> 1 \<le> fh)
   \<and> (1 \<le> n \<and> 1 \<le> c \<and> 1 \<le> fw \<and> 1 \<le> fh \<longrightarrow>
        framesPerCol (snd (setManualGrid n c fw fh ox oy sx sy s)) = \<lceil>(of_int n :: rat) / of_int c\<rceil>
        \<and> n \<le> framesPerCol (snd (setManualGrid n c fw fh ox oy sx sy s)) * c
        \<and> (framesPerCol (snd (setManualGrid n c fw fh ox oy sx sy s)) - 1) * c < n
        \<and> totalFrames (snd (setManualGrid n c fw fh ox oy sx sy s)) = n
        \<and> framesPerRow (snd (setManualGrid n c fw fh ox oy sx sy s)) = c
        \<and> frameWidth (snd (setManualGrid n c fw fh ox oy sx sy s)) = fw
        \<and> frameHeight (snd (setManualGrid n c fw fh ox oy sx sy s)) = fh)
   \<and> (n < 1 \<or> c < 1 \<or> fw < 1 \<or> fh < 1 \<longrightarrow>
        setManualGrid n c fw fh ox oy sx sy s = (False, s))
   \<and> fst (setManualGrid 5 2 10 10 0 0 0 0 s)
   \<and> framesPerCol (snd (setManualGrid 5 2 10 10 0 0 0 0 s)) = 3
   \<and> setManualGrid 0 1 10 10 ox oy sx sy s = (False, s)"
proof -
  have iff: "fst (setManualGrid n c fw fh ox oy sx sy s) = (1 \<le> n \<and> 1 \<le> c \<and> 1 \<le> fw \<and> 1 \<le> fh)"
    by (auto simp: setManualGrid_def)
  have ok: "1 \<le> n \<and> 1 \<le> c \<and> 1 \<le> fw \<and> 1 \<le> fh \<longrightarrow>
        framesPerCol (snd (setManualGrid n c fw fh ox oy sx sy s)) = \<lceil>(of_int n :: rat) / of_int c\<rceil>
        \<and> n \<le> framesPerCol (snd (setManualGrid n c fw fh ox oy sx sy s)) * c
        \<and> (framesPerCol (snd (setManualGrid n c fw fh ox oy sx sy s)) - 1) * c < n
        \<and> totalFrames (snd (setManualGrid n c fw fh ox oy sx sy s)) = n
        \<and> framesPerRow (snd (setManualGrid n c fw fh ox oy sx sy s)) = c
        \<and> frameWidth (snd (setManualGrid n c fw fh ox oy sx sy s)) = fw
        \<and> frameHeight (snd (setManualGrid n c fw fh ox oy sx sy s)) = fh"
  proof
    assume v: "1 \<le> n \<and> 1 \<le> c \<and> 1 \<le> fw \<and> 1 \<le> fh"
    then have c: "1 \<le> c" by simp
    show "framesPerCol (snd (setManualGrid n c fw fh ox oy sx sy s)) = \<lceil>(of_int n :: rat) / of_int c\<rceil>
        \<and> n \<le> framesPerCol (snd (setManualGrid n c fw fh ox oy sx sy s)) * c
        \<and> (framesPerCol (snd (setManualGrid n c fw fh ox oy sx sy s)) - 1) * c < n
        \<and> totalFrames (snd (setManualGrid n c fw fh ox oy sx sy s)) = n
        \<and> framesPerRow (snd (setManualGrid n c fw fh ox oy sx sy s)) = c
        \<and> frameWidth (snd (setManualGrid n c fw fh ox oy sx sy s)) = fw
        \<and> frameHeight (snd (setManualGrid n c fw fh ox oy sx sy s)) = fh"
      using v ceiling_rows [OF c, of n] by (simp add: setManualGrid_accepts)
  qed
  have bad: "n < 1 \<or> c < 1 \<or> fw < 1 \<or> fh < 1 \<longrightarrow>
        setManualGrid n c fw fh ox oy sx sy s = (False, s)"
    by (simp add: setManualGrid_def)
  have "\<lceil>(5 :: rat) / 2\<rceil> = 3"
    using ceiling_rat_div [of 5 2] by simp
  then have e: "fst (setManualGrid 5 2 10 10 0 0 0 0 s)"
    "framesPerCol (snd (setManualGrid 5 2 10 10 0 0 0 0 s)) = 3"
    by (simp_all add: setManualGrid_accepts)
  have z: "setManualGrid 0 1 10 10 ox oy sx sy s = (False, s)"
    by (simp add: setManualGrid_rejects)
  from iff ok bad e z show ?thesis
    by (intro conjI) assumption+
qed

text \<open>On integer arguments the method on possibly-NaN numbers is the method above.\<close>

lemma setManualGrid_js_integers:
  "setManualGrid_js (Num n) (Num c) (Num fw) (Num fh) (Num ox) (Num oy) (Num sx) (Num sy)
       (grid_of s) =
     (fst (setManualGrid n c fw fh ox oy sx sy s),
      grid_of (snd (setManualGrid n c fw fh ox oy sx sy s)))"
  by (simp add: setManualGrid_js_def setManualGrid_def js_lt_def js_ceil_quot_def grid_of_def
      render_def)

text \<open>
  C5, on the code. The four sizes reach \<open>setManualGrid\<close> as results of \<open>parseInt\<close>,
  integers or NaN. The guard tests \<open>x < 1\<close>, which is false for NaN, so the call
  succeeds exactly when each of them is NaN or at least 1, not exactly when all are at
  least 1: with the frame-count field left empty, \<open>setManualGrid(NaN, 4, 256, 256, 0, 0,
  0, 0)\<close> returns \<open>true\<close> and stores \<open>totalFrames = NaN\<close> and \<open>framesPerCol = NaN\<close>, and
  this is the call the Apply button makes. On integer arguments the method agrees with
  the integer rendering: \<open>(5, 2, 10, 10, 0, 0, 0, 0)\<close> succeeds with 3 rows, and
  \<open>(0, 1, 10, 10, ...)\<close> returns \<open>false\<close> and leaves the fields as they were.
\<close>

theorem manual_grid_nan:
  "setManualGrid_js NaN (Num 4) (Num 256) (Num 256) (Num 0) (Num 0) (Num 0) (Num 0) g =
     (True,
      \<lparr> jTotalFrames = NaN, jFramesPerRow = Num 4, jFramesPerCol = NaN,
        jFrameWidth = Num 256, jFrameHeight = Num 256,
        jOffsetX = Num 0, jOffsetY = Num 0, jSpacingX = Num 0, jSpacingY = Num 0,
        jAutoDetect = False, jCurrentFrame = Num 0 \<rparr>)
   \<and> applyGridBtn_click NaN (Num 4) (Num 256) (Num 256) NaN NaN NaN NaN g =
     setManualGrid_js NaN (Num 4) (Num 256) (Num 256) (Num 0) (Num 0) (Num 0) (Num 0) g
   \<and> fst (setManualGrid_js n c fw fh ox oy sx sy g) =
     ((case n of NaN \<Rightarrow> True | Num k \<Rightarrow> 1 \<le> k) \<and> (case c of NaN \<Rightarrow> True | Num k \<Rightarrow> 1 \<le> k)
      \<and> (case fw of NaN \<Rightarrow> True | Num k \<Rightarrow> 1 \<le> k) \<and> (case fh of NaN \<Rightarrow> True | Num k \<Rightarrow> 1 \<le> k))
   \<and> setManualGrid_js (Num n') (Num c') (Num fw') (Num fh') (Num ox') (Num oy') (Num sx') (Num sy')
       (grid_of s) =
     (fst (setManualGrid n' c' fw' fh' ox' oy' sx' sy' s),
      grid_of (snd (setManualGrid n' c' fw' fh' ox' oy' sx' sy' s)))
   \<and> fst (setManualGrid_js (Num 5) (Num 2) (Num 10) (Num 10) (Num 0) (Num 0) (Num 0) (Num 0) g)
   \<and> jFramesPerCol (snd (setManualGrid_js (Num 5) (Num 2) (Num 10) (Num 10)
        (Num 0) (Num 0) (Num 0) (Num 0) g)) = Num 3
   \<and> setManualGrid_js (Num 0) (Num 1) (Num 10) (Num 10) ox oy sx sy g = (False, g)"
proof -
  have nan: "setManualGrid_js NaN (Num 4) (Num 256) (Num 256) (Num 0) (Num 0) (Num 0) (Num 0) g =
     (True,
      \<lparr> jTotalFrames = NaN, jFramesPerRow = Num 4, jFramesPerCol = NaN,
        jFrameWidth = Num 256, jFrameHeight = Num 256,
        jOffsetX = Num 0, jOffsetY = Num 0, jSpacingX = Num 0, jSpacingY = Num 0,
        jAutoDetect = False, jCurrentFrame = Num 0 \<rparr>)"
    by (simp add: setManualGrid_js_def js_lt_def js_ceil_quot_def)
  have click: "applyGridBtn_click NaN (Num 4) (Num 256) (Num 256) NaN NaN NaN NaN g =
     setManualGrid_js NaN (Num 4) (Num 256) (Num 256) (Num 0) (Num 0) (Num 0) (Num 0) g"
    by (simp add: applyGridBtn_click_def js_or_zero_def)
  have guard: "fst (setManualGrid_js n c fw fh ox oy sx sy g) =
     ((case n of NaN \<Rightarrow> True | Num k \<Rightarrow> 1 \<le> k) \<and> (case c of NaN \<Rightarrow> True | Num k \<Rightarrow> 1 \<le> k)
      \<and> (case fw of NaN \<Rightarrow> True | Num k \<Rightarrow> 1 \<le> k) \<and> (case fh of NaN \<Rightarrow> True | Num k \<Rightarrow> 1 \<le> k))"
    by (auto simp: setManualGrid_js_def js_lt_def split: jsnum.splits)
  have five: "\<lceil>(5 :: rat) / 2\<rceil> = 3"
    using ceiling_rat_div [of 5 2] by simp
  have e: "fst (setManualGrid_js (Num 5) (Num 2) (Num 10) (Num 10) (Num 0) (Num 0) (Num 0) (Num 0) g)"
    "jFramesPerCol (snd (setManualGrid_js (Num 5) (Num 2) (Num 10) (Num 10)
        (Num 0) (Num 0) (Num 0) (Num 0) g)) = Num 3"
    by (simp_all add: setManualGrid_js_def js_lt_def js_ceil_quot_def five)
  have z: "setManualGrid_js (Num 0) (Num 1) (Num 10) (Num 10) ox oy sx sy g = (False, g)"
    by (simp add: setManualGrid_js_def js_lt_def)
  from nan click guard setManualGrid_js_integers [of n' c' fw' fh' ox' oy' sx' sy' s] e z
  show ?thesis
    by (intro conjI) assumption+
qed

subsection \<open>Grid detection\<close>

lemma gridCandidates_8: "map (\<lambda>l. (cols l, rows l, score l)) (gridCandidates 1 8 1024 512) =
    [(1, 8, 2), (2, 4, 4), (4, 2, 18), (8, 1, 26)]"
  by (simp add: gridCandidates.simps js_rem_def Let_def)

lemma findBest_8: "findBestGridLayout 8 1024 512 =
    Some \<lparr> cols = 8, rows = 1, frameW = 128, frameH = 512, aspectRatio = 1 / 4, score = 26 \<rparr>"
  by (simp add: findBestGridLayout_def gridCandidates.simps js_rem_def Let_def)

lemma sheet_animator_eq:
  "sheet_animator =
     \<lparr> imgWidth = 1024, imgHeight = 512, canvasWidth = 128, canvasHeight = 512,
       lastDraw = Some \<lparr> rx = 0, ry = 0, rw = 128, rh = 512 \<rparr>,
       frameWidth = 128, frameHeight = 512, totalFrames = 8,
       framesPerRow = 8, framesPerCol = 1,
       currentFrame = 0, isPlaying = False, fps = 24, frameInterval = 125 / 3,
       lastFrameTime = 0, actualFps = 0, frameCount = 0, fpsLastTime = 0,
       animationId = None, offsetX = 0, offsetY = 0, spacingX = 0, spacingY = 0,
       autoDetect = True, rafPending = [], rafNext = 1 \<rparr>"
  by (simp add: sheet_animator_def loadSprite_onload_def page_animator_def SpriteAnimator_def
      detectSpriteLayout_def findBest_8 render_def sourceRect_def js_rem_def Let_def)


lemma gridCandidates_none:
  assumes "n < 1"
  shows "gridCandidates 1 n w h = []"
  using assms by (subst gridCandidates.simps) simp

lemma findBest_undefined:
  assumes "n < 1"
  shows "findBestGridLayout n w h = None"
  using assms by (simp add: findBestGridLayout_def gridCandidates_none)






text \<open>
  C1, as the claim states it, fails: on the sheet of 1024 by 512 pixels with 8 frames
  the detection returns normally, and neither the column count is 4, nor the row count
  2, nor the frame width 256, nor the frame height 256.
\<close>

theorem detect_scenario_counterexample:
  "imgWidth sheet_animator = 1024 \<and> imgHeight sheet_animator = 512
   \<and> totalFrames sheet_animator = 8
   \<and> fst (detectSpriteLayout sheet_animator) = None
   \<and> framesPerRow (snd (detectSpriteLayout sheet_animator)) \<noteq> 4
   \<and> framesPerCol (snd (detectSpriteLayout sheet_animator)) \<noteq> 2
   \<and> frameWidth (snd (detectSpriteLayout sheet_animator)) \<noteq> 256
   \<and> frameHeight (snd (detectSpriteLayout sheet_animator)) \<noteq> 256"
  by (simp add: sheet_animator_eq detectSpriteLayout_def findBest_8 Let_def)

text \<open>
  C1, amended. On a sheet of 1024 by 512 pixels with \<open>totalFrames = 8\<close> the divisor
  pairs 1x8, 2x4, 4x2 and 8x1 score 2, 4, 18 and 26 (twice the columns, plus 10 when
  \<open>0.1 < aspectRatio < 3\<close>: the frames of 8x1 are 128 by 512, aspect ratio 0.25), and
  \<open>detectSpriteLayout\<close> takes the highest: 8 columns, 1 row, frame width 128, frame
  height 512, with the canvas resized to the frame.
\<close>

theorem detect_scenario:
  assumes "imgWidth s = 1024" and "imgHeight s = 512" and "totalFrames s = 8"
  shows "map (\<lambda>l. (cols l, rows l, score l)) (gridCandidates 1 (totalFrames s) (imgWidth s) (imgHeight s)) =
       [(1, 8, 2), (2, 4, 4), (4, 2, 18), (8, 1, 26)]
     \<and> detectSpriteLayout s =
       (None, s\<lparr> framesPerRow := 8, framesPerCol := 1, frameWidth := 128, frameHeight := 512,
                 canvasWidth := 128, canvasHeight := 512 \<rparr>)"
  using assms by (simp add: detectSpriteLayout_def findBest_8 gridCandidates_8 Let_def)

theorem detect_scenario_witness:
  "imgWidth sheet_animator = 1024 \<and> imgHeight sheet_animator = 512
   \<and> totalFrames sheet_animator = 8
   \<and> framesPerRow (snd (detectSpriteLayout sheet_animator)) = 8
   \<and> framesPerCol (snd (detectSpriteLayout sheet_animator)) = 1
   \<and> frameWidth (snd (detectSpriteLayout sheet_animator)) = 128
   \<and> frameHeight (snd (detectSpriteLayout sheet_animator)) = 512"
proof -
  have a: "imgWidth sheet_animator = 1024" "imgHeight sheet_animator = 512"
    "totalFrames sheet_animator = 8"
    by (simp_all add: sheet_animator_eq)
  show ?thesis using a detect_scenario [OF a] by simp
qed

text \<open>
  C6, on the code. With \<open>totalFrames < 1\<close> the loop of \<open>findBestGridLayout\<close> finds no
  candidate and the function returns \<open>undefined\<close>; \<open>detectSpriteLayout\<close> then throws a
  \<open>TypeError\<close> on reading \<open>bestLayout.cols\<close>, before it has assigned any field, and
  \<open>triggerAutoDetect\<close> passes the throw on after setting its flag. The instance built
  with 0 frames throws so when its image loads.
\<close>

theorem detect_without_frames:
  assumes "totalFrames s < 1"
  shows "findBestGridLayout (totalFrames s) (imgWidth s) (imgHeight s) = None
     \<and> detectSpriteLayout s = (Some TypeError, s)
     \<and> triggerAutoDetect s = (Some TypeError, s\<lparr> autoDetect := True \<rparr>)"
  using assms by (simp add: detectSpriteLayout_def triggerAutoDetect_def findBest_undefined)

theorem detect_without_frames_witness:
  "totalFrames (empty_animator\<lparr> imgWidth := 1024, imgHeight := 512 \<rparr>) < 1
   \<and> detectSpriteLayout (empty_animator\<lparr> imgWidth := 1024, imgHeight := 512 \<rparr>) =
       (Some TypeError, empty_animator\<lparr> imgWidth := 1024, imgHeight := 512 \<rparr>)
   \<and> loadSprite_onload 1024 512 empty_animator =
       (Some TypeError, empty_animator\<lparr> imgWidth := 1024, imgHeight := 512 \<rparr>)"
proof -
  have a: "totalFrames (empty_animator\<lparr> imgWidth := 1024, imgHeight := 512 \<rparr>) < 1"
    by (simp add: empty_animator_def SpriteAnimator_def)
  have b: "frameWidth empty_animator = 0"
    by (simp add: empty_animator_def SpriteAnimator_def)
  show ?thesis
    using a detect_without_frames [OF a] by (simp add: loadSprite_onload_def b)
qed

subsection \<open>The sheet's bounds\<close>

text \<open>
  C4, as the claim states it, fails: on the sheet of 1024 by 512 pixels a manual grid of
  8 columns of 256 pixels and one row of 1024 pixels reaches to x = 2048 and y = 1024,
  beyond the sheet both ways, and is accepted: the call returns \<open>true\<close> and the object
  holds the new grid.
\<close>

theorem manual_grid_bounds_counterexample:
  "imgWidth sheet_animator = 1024 \<and> imgHeight sheet_animator = 512
   \<and> (0::int) + 8 * (256 + 0) > imgWidth sheet_animator
   \<and> (0::int) + \<lceil>(8::rat) / 8\<rceil> * (1024 + 0) > imgHeight sheet_animator
   \<and> fst (setManualGrid 8 8 256 1024 0 0 0 0 sheet_animator)
   \<and> snd (setManualGrid 8 8 256 1024 0 0 0 0 sheet_animator) \<noteq> sheet_animator
   \<and> framesPerRow (snd (setManualGrid 8 8 256 1024 0 0 0 0 sheet_animator)) = 8
   \<and> frameWidth (snd (setManualGrid 8 8 256 1024 0 0 0 0 sheet_animator)) = 256
   \<and> frameHeight (snd (setManualGrid 8 8 256 1024 0 0 0 0 sheet_animator)) = 1024"
  by (simp add: setManualGrid_accepts sheet_animator_eq)

text \<open>
  C4, amended. \<open>setManualGrid\<close> does not compare the grid with the sheet: whenever
  \<open>totalFrames\<close>, \<open>cols\<close>, \<open>frameWidth\<close> and \<open>frameHeight\<close> are at least 1 it succeeds and
  stores the frame count, columns, frame size, offsets and spacings as given (nothing is
  clamped), and the outcome is the same whatever the size of the sheet.
\<close>

theorem manual_grid_ignores_sheet:
  assumes "1 \<le> n" and "1 \<le> c" and "1 \<le> fw" and "1 \<le> fh"
  shows "fst (setManualGrid n c fw fh ox oy sx sy s)
     \<and> totalFrames (snd (setManualGrid n c fw fh ox oy sx sy s)) = n
     \<and> framesPerRow (snd (setManualGrid n c fw fh ox oy sx sy s)) = c
     \<and> frameWidth (snd (setManualGrid n c fw fh ox oy sx sy s)) = fw
     \<and> frameHeight (snd (setManualGrid n c fw fh ox oy sx sy s)) = fh
     \<and> offsetX (snd (setManualGrid n c fw fh ox oy sx sy s)) = ox
     \<and> offsetY (snd (setManualGrid n c fw fh ox oy sx sy s)) = oy
     \<and> spacingX (snd (setManualGrid n c fw fh ox oy sx sy s)) = sx
     \<and> spacingY (snd (setManualGrid n c fw fh ox oy sx sy s)) = sy
     \<and> setManualGrid n c fw fh ox oy sx sy (s\<lparr> imgWidth := w, imgHeight := h \<rparr>) =
         (True, (snd (setManualGrid n c fw fh ox oy sx sy s))\<lparr> imgWidth := w, imgHeight := h \<rparr>)"
  using assms by (simp add: setManualGrid_accepts)

theorem manual_grid_ignores_sheet_witness:
  "1 \<le> (8::int) \<and> 1 \<le> (8::int) \<and> 1 \<le> (256::int) \<and> 1 \<le> (1024::int)
   \<and> imgWidth sheet_animator < 0 + 8 * (256 + 0)
   \<and> fst (setManualGrid 8 8 256 1024 0 0 0 0 sheet_animator)
   \<and> frameWidth (snd (setManualGrid 8 8 256 1024 0 0 0 0 sheet_animator)) = 256
   \<and> setManualGrid 8 8 256 1024 0 0 0 0 (sheet_animator\<lparr> imgWidth := 10, imgHeight := 10 \<rparr>) =
       (True, (snd (setManualGrid 8 8 256 1024 0 0 0 0 sheet_animator))\<lparr> imgWidth := 10, imgHeight := 10 \<rparr>)"
proof -
  have v: "1 \<le> (8::int)" "1 \<le> (256::int)" "1 \<le> (1024::int)" by simp_all
  have w: "imgWidth sheet_animator < 0 + 8 * (256 + 0)" by (simp add: sheet_animator_eq)
  show ?thesis
    using v w manual_grid_ignores_sheet [OF v(1) v(1) v(2) v(3), of 0 0 0 0 sheet_animator 10 10]
    by simp
qed

subsection \<open>The frame index across a layout change\<close>




subsection \<open>Ticks\<close>

text \<open>On the operands of a due tick, a non-negative time difference and a positive
  interval, \<open>%\<close> is the remainder of the floor division.\<close>

lemma js_fmod_nonneg:
  assumes "0 \<le> a" and "0 < b"
  shows "js_fmod a b = a - b * of_int \<lfloor>a / b\<rfloor>"
  using assms by (simp add: js_fmod_def js_trunc_def)

lemma js_fmod_1001: "js_fmod 1001 1000 = 1"
  using floor_rat_div [of 1001 1000] by (simp add: js_fmod_nonneg)

lemma animate_paused: "\<not> isPlaying s \<Longrightarrow> animate now s = s"
  by (simp add: animate_def)

lemma animate_fixed:
  "isPlaying (animate now s) = isPlaying s
   \<and> frameInterval (animate now s) = frameInterval s
   \<and> totalFrames (animate now s) = totalFrames s"
  by (simp add: animate_def Let_def requestAnimationFrame_def render_def)

lemma animate_frame:
  assumes "isPlaying s"
  shows "currentFrame (animate now s) =
     (if frameInterval s \<le> now - lastFrameTime s
      then js_rem (currentFrame s + 1) (totalFrames s) else currentFrame s)"
  using assms by (simp add: animate_def Let_def requestAnimationFrame_def render_def)

lemma animate_last:
  assumes "isPlaying s"
  shows "lastFrameTime (animate now s) =
     (if frameInterval s \<le> now - lastFrameTime s
      then now - js_fmod (now - lastFrameTime s) (frameInterval s) else lastFrameTime s)"
  using assms by (simp add: animate_def Let_def requestAnimationFrame_def render_def)

lemma setFPS_one:
  "isPlaying (setFPS 1 s) = isPlaying s \<and> frameInterval (setFPS 1 s) = 1000
   \<and> lastFrameTime (setFPS 1 s) = lastFrameTime s
   \<and> currentFrame (setFPS 1 s) = currentFrame s
   \<and> totalFrames (setFPS 1 s) = totalFrames s \<and> fps (setFPS 1 s) = 1"
  by (simp add: setFPS_def Let_def)

lemma playing_animator_eq:
  "playing_animator =
     \<lparr> imgWidth = 1024, imgHeight = 512, canvasWidth = 128, canvasHeight = 512,
       lastDraw = Some \<lparr> rx = 0, ry = 0, rw = 128, rh = 512 \<rparr>,
       frameWidth = 128, frameHeight = 512, totalFrames = 8,
       framesPerRow = 8, framesPerCol = 1,
       currentFrame = 0, isPlaying = True, fps = 1, frameInterval = 1000,
       lastFrameTime = 0, actualFps = 0, frameCount = 1, fpsLastTime = 0,
       animationId = Some 1, offsetX = 0, offsetY = 0, spacingX = 0, spacingY = 0,
       autoDetect = True, rafPending = [1], rafNext = 2 \<rparr>"
  by (simp add: playing_animator_def play_def setFPS_def animate_def sheet_animator_eq
      requestAnimationFrame_def Let_def)

text \<open>
  C3. A tick is a call of \<open>animate\<close> with the clock at \<open>now\<close>, while playing, with a
  positive frame interval and the frame index in \<open>[0, totalFrames)\<close>; let \<open>delta = now -
  lastFrameTime\<close>. If \<open>delta \<ge> frameInterval\<close> the index advances by one step, to
  \<open>(currentFrame + 1) mod totalFrames\<close> (that is \<open>currentFrame + 1\<close> unless it wraps),
  however many intervals have elapsed, and \<open>lastFrameTime\<close> becomes \<open>now - (delta mod
  frameInterval)\<close>, the remainder being \<open>delta - frameInterval * floor (delta /
  frameInterval)\<close>; the new value lies in \<open>(now - frameInterval, now]\<close>. If \<open>delta <
  frameInterval\<close> the index and \<open>lastFrameTime\<close> are unchanged. With the rate set to 1
  (interval 1000) and \<open>lastFrameTime = 0\<close>, the ticks at 0, 16, 1001 and 1990 advance
  the frame once, at 1001, and leave \<open>lastFrameTime = 1000\<close>.
\<close>

theorem animate_tick:
  assumes "isPlaying s" and "0 < frameInterval s"
    and "0 \<le> currentFrame s" and "currentFrame s < totalFrames s"
  shows "(frameInterval s \<le> now - lastFrameTime s \<longrightarrow>
        currentFrame (animate now s) = (currentFrame s + 1) mod totalFrames s
        \<and> (currentFrame s + 1 < totalFrames s \<longrightarrow> currentFrame (animate now s) = currentFrame s + 1)
        \<and> lastFrameTime (animate now s) =
            now - ((now - lastFrameTime s)
                   - frameInterval s * of_int \<lfloor>(now - lastFrameTime s) / frameInterval s\<rfloor>)
        \<and> lastFrameTime (animate now s) \<le> now
        \<and> now - frameInterval s < lastFrameTime (animate now s))
     \<and> (now - lastFrameTime s < frameInterval s \<longrightarrow>
        currentFrame (animate now s) = currentFrame s
        \<and> lastFrameTime (animate now s) = lastFrameTime s)
     \<and> (lastFrameTime s = 0 \<longrightarrow>
        fps (setFPS 1 s) = 1 \<and> frameInterval (setFPS 1 s) = 1000
        \<and> currentFrame (animate 0 (setFPS 1 s)) = currentFrame s
        \<and> currentFrame (animate 16 (animate 0 (setFPS 1 s))) = currentFrame s
        \<and> currentFrame (animate 1001 (animate 16 (animate 0 (setFPS 1 s)))) =
            (currentFrame s + 1) mod totalFrames s
        \<and> lastFrameTime (animate 1001 (animate 16 (animate 0 (setFPS 1 s)))) = 1000
        \<and> currentFrame (animate 1990 (animate 1001 (animate 16 (animate 0 (setFPS 1 s))))) =
            (currentFrame s + 1) mod totalFrames s
        \<and> lastFrameTime (animate 1990 (animate 1001 (animate 16 (animate 0 (setFPS 1 s))))) = 1000)"
proof -
  have rem: "js_rem (currentFrame s + 1) (totalFrames s) = (currentFrame s + 1) mod totalFrames s"
    using assms by (simp add: js_rem_nonneg)
  have advance: "frameInterval s \<le> now - lastFrameTime s \<longrightarrow>
        currentFrame (animate now s) = (currentFrame s + 1) mod totalFrames s
        \<and> (currentFrame s + 1 < totalFrames s \<longrightarrow> currentFrame (animate now s) = currentFrame s + 1)
        \<and> lastFrameTime (animate now s) =
            now - ((now - lastFrameTime s)
                   - frameInterval s * of_int \<lfloor>(now - lastFrameTime s) / frameInterval s\<rfloor>)
        \<and> lastFrameTime (animate now s) \<le> now
        \<and> now - frameInterval s < lastFrameTime (animate now s)"
  proof
    assume due: "frameInterval s \<le> now - lastFrameTime s"
    define d where "d = now - lastFrameTime s"
    define q where "q = \<lfloor>d / frameInterval s\<rfloor>"
    have d: "0 \<le> d" using due assms(2) by (simp add: d_def)
    have frame: "currentFrame (animate now s) = (currentFrame s + 1) mod totalFrames s"
      using due by (simp add: animate_frame [OF assms(1)] rem)
    have "lastFrameTime (animate now s) = now - js_fmod d (frameInterval s)"
      unfolding animate_last [OF assms(1)] d_def using due by simp
    then have last: "lastFrameTime (animate now s) = now - (d - frameInterval s * of_int q)"
      unfolding js_fmod_nonneg [OF d assms(2)] q_def .
    have "of_int q \<le> d / frameInterval s" and "d / frameInterval s < of_int q + 1"
      unfolding q_def by linarith+
    then have "frameInterval s * of_int q \<le> d" and "d < frameInterval s * of_int q + frameInterval s"
      using assms(2) by (simp_all add: pos_le_divide_eq pos_divide_less_eq algebra_simps)
    then have bounds: "lastFrameTime (animate now s) \<le> now"
      "now - frameInterval s < lastFrameTime (animate now s)"
      unfolding last by linarith+
    show "currentFrame (animate now s) = (currentFrame s + 1) mod totalFrames s
        \<and> (currentFrame s + 1 < totalFrames s \<longrightarrow> currentFrame (animate now s) = currentFrame s + 1)
        \<and> lastFrameTime (animate now s) =
            now - ((now - lastFrameTime s)
                   - frameInterval s * of_int \<lfloor>(now - lastFrameTime s) / frameInterval s\<rfloor>)
        \<and> lastFrameTime (animate now s) \<le> now
        \<and> now - frameInterval s < lastFrameTime (animate now s)"
      using frame last bounds assms(3) by (simp add: d_def q_def)
  qed
  have hold: "now - lastFrameTime s < frameInterval s \<longrightarrow>
        currentFrame (animate now s) = currentFrame s
        \<and> lastFrameTime (animate now s) = lastFrameTime s"
    by (simp add: animate_frame [OF assms(1)] animate_last [OF assms(1)])
  have scenario: "lastFrameTime s = 0 \<longrightarrow>
        fps (setFPS 1 s) = 1 \<and> frameInterval (setFPS 1 s) = 1000
        \<and> currentFrame (animate 0 (setFPS 1 s)) = currentFrame s
        \<and> currentFrame (animate 16 (animate 0 (setFPS 1 s))) = currentFrame s
        \<and> currentFrame (animate 1001 (animate 16 (animate 0 (setFPS 1 s)))) =
            (currentFrame s + 1) mod totalFrames s
        \<and> lastFrameTime (animate 1001 (animate 16 (animate 0 (setFPS 1 s)))) = 1000
        \<and> currentFrame (animate 1990 (animate 1001 (animate 16 (animate 0 (setFPS 1 s))))) =
            (currentFrame s + 1) mod totalFrames s
        \<and> lastFrameTime (animate 1990 (animate 1001 (animate 16 (animate 0 (setFPS 1 s))))) = 1000"
  proof
    assume zero: "lastFrameTime s = 0"
    define t0 where "t0 = setFPS 1 s"
    define t1 where "t1 = animate 0 t0"
    define t2 where "t2 = animate 16 t1"
    define t3 where "t3 = animate 1001 t2"
    define t4 where "t4 = animate 1990 t3"
    have p0: "isPlaying t0" "frameInterval t0 = 1000" "totalFrames t0 = totalFrames s"
      "currentFrame t0 = currentFrame s" "lastFrameTime t0 = 0" "fps t0 = 1"
      using assms(1) zero setFPS_one [of s] by (simp_all add: t0_def)
    have p1: "isPlaying t1" "frameInterval t1 = 1000" "totalFrames t1 = totalFrames s"
      using p0 animate_fixed [of 0 t0] by (simp_all add: t1_def)
    have c1: "currentFrame t1 = currentFrame s" "lastFrameTime t1 = 0"
      using p0 by (simp_all add: t1_def animate_frame animate_last)
    have p2: "isPlaying t2" "frameInterval t2 = 1000" "totalFrames t2 = totalFrames s"
      using p1 animate_fixed [of 16 t1] by (simp_all add: t2_def)
    have c2: "currentFrame t2 = currentFrame s" "lastFrameTime t2 = 0"
      using p1 c1 by (simp_all add: t2_def animate_frame animate_last)
    have p3: "isPlaying t3" "frameInterval t3 = 1000" "totalFrames t3 = totalFrames s"
      using p2 animate_fixed [of 1001 t2] by (simp_all add: t3_def)
    have c3: "currentFrame t3 = (currentFrame s + 1) mod totalFrames s" "lastFrameTime t3 = 1000"
      using p2 c2 rem by (simp_all add: t3_def animate_frame animate_last js_fmod_1001)
    have c4: "currentFrame t4 = (currentFrame s + 1) mod totalFrames s" "lastFrameTime t4 = 1000"
      using p3 c3 by (simp_all add: t4_def animate_frame animate_last)
    show "fps (setFPS 1 s) = 1 \<and> frameInterval (setFPS 1 s) = 1000
        \<and> currentFrame (animate 0 (setFPS 1 s)) = currentFrame s
        \<and> currentFrame (animate 16 (animate 0 (setFPS 1 s))) = currentFrame s
        \<and> currentFrame (animate 1001 (animate 16 (animate 0 (setFPS 1 s)))) =
            (currentFrame s + 1) mod totalFrames s
        \<and> lastFrameTime (animate 1001 (animate 16 (animate 0 (setFPS 1 s)))) = 1000
        \<and> currentFrame (animate 1990 (animate 1001 (animate 16 (animate 0 (setFPS 1 s))))) =
            (currentFrame s + 1) mod totalFrames s
        \<and> lastFrameTime (animate 1990 (animate 1001 (animate 16 (animate 0 (setFPS 1 s))))) = 1000"
      using p0 c1 c2 c3 c4 unfolding t4_def t3_def t2_def t1_def t0_def by simp
  qed
  from advance hold scenario show ?thesis
    by (intro conjI) assumption+
qed

theorem animate_tick_witness:
  "isPlaying playing_animator \<and> 0 < frameInterval playing_animator
   \<and> 0 \<le> currentFrame playing_animator
   \<and> currentFrame playing_animator < totalFrames playing_animator
   \<and> frameInterval playing_animator \<le> 5500 - lastFrameTime playing_animator
   \<and> currentFrame (animate 5500 playing_animator) = 1
   \<and> lastFrameTime (animate 5500 playing_animator) = 5000
   \<and> 16 - lastFrameTime playing_animator < frameInterval playing_animator
   \<and> currentFrame (animate 16 playing_animator) = 0
   \<and> lastFrameTime (animate 16 playing_animator) = 0
   \<and> lastFrameTime playing_animator = 0
   \<and> currentFrame (animate 16 (animate 0 (setFPS 1 playing_animator))) = 0
   \<and> currentFrame (animate 1001 (animate 16 (animate 0 (setFPS 1 playing_animator)))) = 1
   \<and> currentFrame (animate 1990 (animate 1001 (animate 16 (animate 0
        (setFPS 1 playing_animator))))) = 1
   \<and> lastFrameTime (animate 1990 (animate 1001 (animate 16 (animate 0
        (setFPS 1 playing_animator))))) = 1000"
proof -
  have a: "isPlaying playing_animator" "0 < frameInterval playing_animator"
    "0 \<le> currentFrame playing_animator"
    "currentFrame playing_animator < totalFrames playing_animator"
    by (simp_all add: playing_animator_eq)
  have v: "frameInterval playing_animator = 1000" "lastFrameTime playing_animator = 0"
    "currentFrame playing_animator = 0" "totalFrames playing_animator = 8"
    by (simp_all add: playing_animator_eq)
  have f: "\<lfloor>(11 :: rat) / 2\<rfloor> = 5"
    using floor_rat_div [of 11 2] by simp
  show ?thesis
    using a(1) animate_tick [OF a, of 5500] animate_tick [OF a, of 16]
    by (simp add: v f)
qed

end
